theory Spec2Isabelle
  imports Complex_Main
begin

section \<open>Exceptions\<close>

text \<open>
  The Python exceptions that the modelled functions of \<^verbatim>\<open>iodata/utils.py\<close> can raise.
  The specification's names map onto them as follows: an invalid-argument error and a
  value-range error are both Python's \<^verbatim>\<open>ValueError\<close>. A \<^verbatim>\<open>FileFormatError\<close> carries the
  file name, the line number and the message that the source formats into one string.
\<close>

datatype error =
    ValueError
  | TypeError
  | IndexError
  | AttributeError
  | StopIteration
  | FileNotFoundError
  | LinAlgError
  | FileFormatError string int string

section \<open>LineIterator\<close>

text \<open>
  The file handle \<^verbatim>\<open>self.fh\<close>: \<^verbatim>\<open>None\<close> before \<^verbatim>\<open>__enter__\<close>, an open text file (the
  lines not yet read) after it, a closed file after \<^verbatim>\<open>__exit__\<close>.
\<close>

datatype handle = NoHandle | OpenHandle "string list" | ClosedHandle

text \<open>
  \<^verbatim>\<open>self.stack\<close> is a Python list used as a stack: \<^verbatim>\<open>append\<close> adds at the end and
  \<^verbatim>\<open>pop\<close> removes from the end, so the top of the stack is the last element.
  \<^verbatim>\<open>self.lineno\<close> is an unbounded Python integer.
\<close>

record LineIterator =
  filename :: string
  fh :: handle
  lineno :: int
  stack :: "string list"

definition LineIterator_init :: "string \<Rightarrow> LineIterator" where
  "LineIterator_init fname =
     \<lparr>filename = fname, fh = NoHandle, lineno = 0, stack = []\<rparr>"

text \<open>
  \<^verbatim>\<open>__enter__\<close> opens the file; the file system is a parameter mapping a file name to the
  lines of the file, when it exists. A missing file raises before \<^verbatim>\<open>self.fh\<close> is assigned.
\<close>

definition LineIterator_enter ::
  "(string \<rightharpoonup> string list) \<Rightarrow> LineIterator \<Rightarrow> error option \<times> LineIterator" where
  "LineIterator_enter fs self =
     (case fs (filename self) of
        None \<Rightarrow> (Some FileNotFoundError, self)
      | Some ls \<Rightarrow> (None, self\<lparr>fh := OpenHandle ls\<rparr>))"

definition LineIterator_exit :: "LineIterator \<Rightarrow> error option \<times> LineIterator" where
  "LineIterator_exit self =
     (case fh self of
        NoHandle \<Rightarrow> (Some AttributeError, self)
      | OpenHandle ls \<Rightarrow> (None, self\<lparr>fh := ClosedHandle\<rparr>)
      | ClosedHandle \<Rightarrow> (None, self))"

text \<open>
  \<^verbatim>\<open>__next__\<close> increments the counter first, then pops the stack when it is not empty and
  reads the file otherwise. The increment has happened when the read raises, so the state
  is returned next to the outcome.
\<close>

definition LineIterator_next :: "LineIterator \<Rightarrow> (error + string) \<times> LineIterator" where
  "LineIterator_next self =
     (let self1 = self\<lparr>lineno := lineno self + 1\<rparr> in
      if stack self1 \<noteq> [] then
        (Inr (last (stack self1)), self1\<lparr>stack := butlast (stack self1)\<rparr>)
      else
        (case fh self1 of
           NoHandle \<Rightarrow> (Inl TypeError, self1)
         | ClosedHandle \<Rightarrow> (Inl ValueError, self1)
         | OpenHandle [] \<Rightarrow> (Inl StopIteration, self1)
         | OpenHandle (l # ls) \<Rightarrow> (Inr l, self1\<lparr>fh := OpenHandle ls\<rparr>)))"

definition LineIterator_error :: "LineIterator \<Rightarrow> string \<Rightarrow> error \<times> LineIterator" where
  "LineIterator_error self msg = (FileFormatError (filename self) (lineno self) msg, self)"

text \<open>\<^verbatim>\<open>warn\<close> emits a warning with the same tag and returns; the warning is the output.\<close>

definition LineIterator_warn ::
  "LineIterator \<Rightarrow> string \<Rightarrow> (string \<times> int \<times> string) \<times> LineIterator" where
  "LineIterator_warn self msg = ((filename self, lineno self, msg), self)"

definition LineIterator_back :: "LineIterator \<Rightarrow> string \<Rightarrow> LineIterator" where
  "LineIterator_back self line =
     self\<lparr>stack := stack self @ [line], lineno := lineno self - 1\<rparr>"

text \<open>The operations of the cursor, and the state each of them leaves behind.\<close>

datatype cursor_op = Enter | Exit | Next | Error string | Warn string | Back string

fun run_op :: "(string \<rightharpoonup> string list) \<Rightarrow> cursor_op \<Rightarrow> LineIterator \<Rightarrow> LineIterator" where
  "run_op fs Enter self = snd (LineIterator_enter fs self)"
| "run_op fs Exit self = snd (LineIterator_exit self)"
| "run_op fs Next self = snd (LineIterator_next self)"
| "run_op fs (Error msg) self = snd (LineIterator_error self msg)"
| "run_op fs (Warn msg) self = snd (LineIterator_warn self msg)"
| "run_op fs (Back line) self = LineIterator_back self line"

section \<open>strtobool\<close>

text \<open>
  \<^verbatim>\<open>str.lower\<close> on the bytes of a string: the ASCII capitals move to their small letters
  and every other byte stays. No character outside ASCII lowers to a letter or digit of a
  key of the table, so the lookup below agrees with Python's on such strings too.
\<close>

definition lower_char :: "char \<Rightarrow> char" where
  "lower_char c =
     (let n = (of_char c :: nat) in if 65 \<le> n \<and> n \<le> 90 then char_of (n + 32) else c)"

definition lower :: "string \<Rightarrow> string" where
  "lower s = map lower_char s"

definition STRTOBOOL :: "(string \<times> bool) list" where
  "STRTOBOOL =
     [(''y'', True), (''yes'', True), (''t'', True), (''true'', True), (''on'', True),
      (''1'', True), (''n'', False), (''no'', False), (''f'', False), (''false'', False),
      (''off'', False), (''0'', False)]"

definition strtobool :: "string \<Rightarrow> error + bool" where
  "strtobool v =
     (case map_of STRTOBOOL (lower v) of
        None \<Rightarrow> Inl ValueError
      | Some result \<Rightarrow> Inr result)"

section \<open>Cube\<close>

text \<open>
  A numpy array of floats: its shape and its elements in row-major order.
\<close>

record NDArray =
  shape :: "nat list"
  flat :: "real list"

text \<open>
  Modelled from the spec: \<^verbatim>\<open>validate_shape\<close> of \<^verbatim>\<open>iodata/attrutils.py\<close> is not among the
  sources. The specification says that each attribute has a declared shape constraint, that
  the shape invariants are enforced at construction, and that a value violating its shape
  contract is rejected with a type-mismatch error (Python's \<^verbatim>\<open>TypeError\<close>). A requirement
  is a list with one entry for each axis: a fixed extent, or \<^verbatim>\<open>None\<close> for any extent.
\<close>

definition validate_shape :: "nat option list \<Rightarrow> NDArray \<Rightarrow> error + unit" where
  "validate_shape expected v =
     (if list_all2 (\<lambda>e n. case e of None \<Rightarrow> True | Some k \<Rightarrow> k = n) expected (shape v)
      then Inr () else Inl TypeError)"

record Cube =
  origin :: NDArray
  axes :: NDArray
  data :: NDArray

text \<open>
  The constructor that \<^verbatim>\<open>attrs.define\<close> generates assigns the three fields and then runs
  the validators in the order of the fields; the first one that raises ends it.
\<close>

definition Cube_init :: "NDArray \<Rightarrow> NDArray \<Rightarrow> NDArray \<Rightarrow> error + Cube" where
  "Cube_init origin' axes' data' =
     (case validate_shape [Some 3] origin' of
        Inl e \<Rightarrow> Inl e
      | Inr _ \<Rightarrow>
          (case validate_shape [Some 3, Some 3] axes' of
             Inl e \<Rightarrow> Inl e
           | Inr _ \<Rightarrow>
               (case validate_shape [None, None, None] data' of
                  Inl e \<Rightarrow> Inl e
                | Inr _ \<Rightarrow> Inr \<lparr>origin = origin', axes = axes', data = data'\<rparr>)))"

definition Cube_shape :: "Cube \<Rightarrow> nat list" where
  "Cube_shape self = shape (data self)"

section \<open>set_four_index_element\<close>

text \<open>
  The four-index object: an array of shape (nbasis, nbasis, nbasis, nbasis), stored in
  row-major order. The function writes to it in place; the model returns the new array.
\<close>

record four_index =
  nbasis :: nat
  elems :: "real list"

text \<open>
  A numpy index along an axis of extent \<open>n\<close>: a negative index counts from the end, and an
  index outside \<open>-n \<le> i < n\<close> raises \<^verbatim>\<open>IndexError\<close>.
\<close>

definition normalize_index :: "nat \<Rightarrow> int \<Rightarrow> error + nat" where
  "normalize_index n i =
     (if 0 \<le> i \<and> i < int n then Inr (nat i)
      else if - int n \<le> i \<and> i < 0 then Inr (nat (i + int n))
      else Inl IndexError)"

definition flat_index :: "nat \<Rightarrow> nat \<Rightarrow> nat \<Rightarrow> nat \<Rightarrow> nat \<Rightarrow> nat" where
  "flat_index n j0 j1 j2 j3 = ((j0 * n + j1) * n + j2) * n + j3"

definition locate :: "four_index \<Rightarrow> int \<Rightarrow> int \<Rightarrow> int \<Rightarrow> int \<Rightarrow> error + nat" where
  "locate a i0 i1 i2 i3 =
     (case normalize_index (nbasis a) i0 of Inl e \<Rightarrow> Inl e | Inr j0 \<Rightarrow>
      case normalize_index (nbasis a) i1 of Inl e \<Rightarrow> Inl e | Inr j1 \<Rightarrow>
      case normalize_index (nbasis a) i2 of Inl e \<Rightarrow> Inl e | Inr j2 \<Rightarrow>
      case normalize_index (nbasis a) i3 of Inl e \<Rightarrow> Inl e | Inr j3 \<Rightarrow>
        Inr (flat_index (nbasis a) j0 j1 j2 j3))"

definition getitem :: "four_index \<Rightarrow> int \<Rightarrow> int \<Rightarrow> int \<Rightarrow> int \<Rightarrow> error + real" where
  "getitem a i0 i1 i2 i3 =
     (case locate a i0 i1 i2 i3 of Inl e \<Rightarrow> Inl e | Inr k \<Rightarrow> Inr (elems a ! k))"

definition setitem ::
  "four_index \<Rightarrow> int \<Rightarrow> int \<Rightarrow> int \<Rightarrow> int \<Rightarrow> real \<Rightarrow> error + four_index" where
  "setitem a i0 i1 i2 i3 v =
     (case locate a i0 i1 i2 i3 of
        Inl e \<Rightarrow> Inl e
      | Inr k \<Rightarrow> Inr (a\<lparr>elems := (elems a)[k := v]\<rparr>))"

definition and_then :: "error + 'a \<Rightarrow> ('a \<Rightarrow> error + 'b) \<Rightarrow> error + 'b" where
  "and_then m f = (case m of Inl e \<Rightarrow> Inl e | Inr x \<Rightarrow> f x)"

definition set_four_index_element ::
  "four_index \<Rightarrow> int \<Rightarrow> int \<Rightarrow> int \<Rightarrow> int \<Rightarrow> real \<Rightarrow> error + four_index" where
  "set_four_index_element four_index_object i0 i1 i2 i3 v =
     and_then (setitem four_index_object i0 i1 i2 i3 v) (\<lambda>a1.
     and_then (setitem a1 i1 i0 i3 i2 v) (\<lambda>a2.
     and_then (setitem a2 i2 i1 i0 i3 v) (\<lambda>a3.
     and_then (setitem a3 i0 i3 i2 i1 v) (\<lambda>a4.
     and_then (setitem a4 i2 i3 i0 i1 v) (\<lambda>a5.
     and_then (setitem a5 i3 i2 i1 i0 v) (\<lambda>a6.
     and_then (setitem a6 i1 i2 i3 i0 v) (\<lambda>a7.
     setitem a7 i3 i0 i1 i2 v)))))))"

text \<open>The elements after writing one value at each position of a list, in order.\<close>

definition write_all :: "nat list \<Rightarrow> real \<Rightarrow> real list \<Rightarrow> real list" where
  "write_all ks v xs = fold (\<lambda>k ys. ys[k := v]) ks xs"

section \<open>volume\<close>

text \<open>
  The argument of \<^verbatim>\<open>volume\<close>: a rank-1 array (one cell vector) or a rank-2 array (a list
  of rows).
\<close>

datatype cellvecs = Rank1 "real list" | Rank2 "real list list"

text \<open>
  \<^verbatim>\<open>np.linalg.norm\<close> without further arguments: the square root of the sum of the squares
  of all the elements. \<^verbatim>\<open>np.cross\<close> of two vectors of length 3, or of two vectors of length
  2 (the third component alone); other lengths raise \<^verbatim>\<open>ValueError\<close>. \<^verbatim>\<open>np.linalg.det\<close>
  raises \<^verbatim>\<open>LinAlgError\<close> unless the matrix is square; it is only called with three rows.
  The three functions below give the exact values, in the arithmetic of the real numbers.
  numpy computes in doubles: its result is the exact value wherever no operation rounds or
  overflows, as on matrices whose entries are 0 and 1 with a single 1 in every row and
  column, and a rounded value elsewhere.
\<close>

definition linalg_norm :: "real list \<Rightarrow> real" where
  "linalg_norm xs = sqrt (sum_list (map (\<lambda>x. x * x) xs))"

definition cross :: "real list \<Rightarrow> real list \<Rightarrow> error + real list" where
  "cross a b =
     (if length a = 3 \<and> length b = 3 then
        Inr [a ! 1 * b ! 2 - a ! 2 * b ! 1,
             a ! 2 * b ! 0 - a ! 0 * b ! 2,
             a ! 0 * b ! 1 - a ! 1 * b ! 0]
      else if length a = 2 \<and> length b = 2 then
        Inr [a ! 0 * b ! 1 - a ! 1 * b ! 0]
      else Inl ValueError)"

definition det2 :: "real \<Rightarrow> real \<Rightarrow> real \<Rightarrow> real \<Rightarrow> real" where
  "det2 a b c d = a * d - b * c"

definition linalg_det :: "real list list \<Rightarrow> error + real" where
  "linalg_det m =
     (if length m = 3 \<and> list_all (\<lambda>r. length r = 3) m then
        Inr (m ! 0 ! 0 * det2 (m ! 1 ! 1) (m ! 1 ! 2) (m ! 2 ! 1) (m ! 2 ! 2)
           - m ! 0 ! 1 * det2 (m ! 1 ! 0) (m ! 1 ! 2) (m ! 2 ! 0) (m ! 2 ! 2)
           + m ! 0 ! 2 * det2 (m ! 1 ! 0) (m ! 1 ! 1) (m ! 2 ! 0) (m ! 2 ! 1))
      else Inl LinAlgError)"

definition volume :: "cellvecs \<Rightarrow> error + real" where
  "volume cv =
     (case cv of
        Rank1 v \<Rightarrow> Inr (linalg_norm v)
      | Rank2 rows \<Rightarrow>
          (let nvecs = length rows in
           if nvecs = 1 then Inr (linalg_norm (concat rows))
           else if nvecs = 2 then
             (case cross (rows ! 0) (rows ! 1) of
                Inl e \<Rightarrow> Inl e
              | Inr c \<Rightarrow> Inr (linalg_norm c))
           else if nvecs = 3 then linalg_det rows
           else Inl ValueError))"

section \<open>Natural orbitals and the density-matrix check\<close>

text \<open>
  The elements of the arrays and the two thresholds are IEEE doubles: a finite value, an
  infinity or NaN. A finite double is a real number (the two zeros are one value: they
  compare equal). Comparison and negation are exact. A sum is the exact sum rounded to a
  double, and the rounding function (round to nearest, ties to even, overflowing to an
  infinity) is a parameter, \<open>rnd\<close>.
\<close>

datatype double = Fin real | PInf | NInf | NaN

text \<open>\<^verbatim>\<open>a < b\<close>: false whenever an operand is NaN. \<^verbatim>\<open>a > b\<close> is \<^verbatim>\<open>b < a\<close>.\<close>

fun flt :: "double \<Rightarrow> double \<Rightarrow> bool" where
  "flt NaN b = False"
| "flt a NaN = False"
| "flt (Fin a) (Fin b) = (a < b)"
| "flt NInf NInf = False"
| "flt NInf b = True"
| "flt a NInf = False"
| "flt PInf b = False"
| "flt a PInf = True"

fun fneg :: "double \<Rightarrow> double" where
  "fneg (Fin a) = Fin (- a)"
| "fneg PInf = NInf"
| "fneg NInf = PInf"
| "fneg NaN = NaN"

fun fadd :: "(real \<Rightarrow> double) \<Rightarrow> double \<Rightarrow> double \<Rightarrow> double" where
  "fadd rnd NaN b = NaN"
| "fadd rnd a NaN = NaN"
| "fadd rnd (Fin a) (Fin b) = rnd (a + b)"
| "fadd rnd PInf NInf = NaN"
| "fadd rnd NInf PInf = NaN"
| "fadd rnd PInf b = PInf"
| "fadd rnd NInf b = NInf"
| "fadd rnd a PInf = PInf"
| "fadd rnd a NInf = NInf"

text \<open>
  \<^verbatim>\<open>ndarray.min\<close> and \<^verbatim>\<open>ndarray.max\<close>: NaN when an element is NaN, the least and the
  greatest element otherwise; on an empty array they raise \<^verbatim>\<open>ValueError\<close>.
\<close>

definition fmin :: "double \<Rightarrow> double \<Rightarrow> double" where
  "fmin a b = (if a = NaN \<or> b = NaN then NaN else if flt b a then b else a)"

definition fmax :: "double \<Rightarrow> double \<Rightarrow> double" where
  "fmax a b = (if a = NaN \<or> b = NaN then NaN else if flt a b then b else a)"

fun amin :: "double list \<Rightarrow> error + double" where
  "amin [] = Inl ValueError"
| "amin (x # xs) = Inr (fold fmin xs x)"

fun amax :: "double list \<Rightarrow> error + double" where
  "amax [] = Inl ValueError"
| "amax (x # xs) = Inr (fold fmax xs x)"

text \<open>
  A matrix is the list of its rows. \<^verbatim>\<open>overlap.T\<close> is the transpose; it moves the elements
  and computes nothing.
\<close>

type_synonym matrix = "real list list"

type_synonym dmatrix = "double list list"

definition ncols :: "'a list list \<Rightarrow> nat" where
  "ncols m = (case m of [] \<Rightarrow> 0 | r # _ \<Rightarrow> length r)"

definition column :: "'a list list \<Rightarrow> nat \<Rightarrow> 'a list" where
  "column m j = map (\<lambda>r. r ! j) m"

definition T :: "'a list list \<Rightarrow> 'a list list" where
  "T m = map (column m) [0..<ncols m]"

text \<open>
  \<^verbatim>\<open>np.dot\<close> and \<^verbatim>\<open>scipy.linalg.eigh\<close> are not code of this repository, and what they
  return is the outcome of double arithmetic in an order that their libraries choose: both
  are parameters of \<^verbatim>\<open>derive_naturals\<close> and \<^verbatim>\<open>check_dm\<close>. The product returns a
  matrix or raises; the solver returns the eigenvalues and the matrix whose columns are the
  eigenvectors, or raises. The slice \<^verbatim>\<open>evecs[:, :coeffs.shape[1]]\<close> keeps the first
  \<^verbatim>\<open>overlap.shape[1]\<close> entries of every row.
\<close>

definition derive_naturals ::
  "(dmatrix \<Rightarrow> dmatrix \<Rightarrow> error + dmatrix) \<Rightarrow>
   (dmatrix \<Rightarrow> dmatrix \<Rightarrow> error + double list \<times> dmatrix) \<Rightarrow>
   dmatrix \<Rightarrow> dmatrix \<Rightarrow> error + dmatrix \<times> double list" where
  "derive_naturals np_dot eigh dm overlap =
     and_then (np_dot dm overlap) (\<lambda>ds.
     and_then (np_dot (T overlap) ds) (\<lambda>sds.
     and_then (eigh sds overlap) (\<lambda>(evals, evecs).
       Inr (map (take (ncols overlap)) evecs, evals))))"

definition check_dm ::
  "(real \<Rightarrow> double) \<Rightarrow> (dmatrix \<Rightarrow> dmatrix \<Rightarrow> error + dmatrix) \<Rightarrow>
   (dmatrix \<Rightarrow> dmatrix \<Rightarrow> error + double list \<times> dmatrix) \<Rightarrow>
   dmatrix \<Rightarrow> dmatrix \<Rightarrow> double \<Rightarrow> double \<Rightarrow> error + unit" where
  "check_dm rnd np_dot eigh dm overlap eps occ_max =
     and_then (derive_naturals np_dot eigh dm overlap) (\<lambda>(coeffs, occupations).
     and_then (amin occupations) (\<lambda>lowest.
       if flt lowest (fneg eps) then Inl ValueError
       else
         and_then (amax occupations) (\<lambda>highest.
           if flt (fadd rnd occ_max eps) highest then Inl ValueError
           else Inr ())))"

text \<open>
  The product and the solver on the inputs of the examples: the empty matrices, where both
  return empty arrays, and 2 by 2 matrices where one factor of the product is the identity
  and the pencil is a diagonal matrix with the identity as its metric. On these inputs no
  operation rounds: the product is the other factor, the eigenvalues are the two diagonal
  entries in ascending order and the eigenvectors are the unit vectors. Elsewhere these two
  functions raise; they stand for numpy and scipy on the examples only.
\<close>

definition identity2 :: dmatrix where
  "identity2 = [[Fin 1, Fin 0], [Fin 0, Fin 1]]"

definition dot_example :: "dmatrix \<Rightarrow> dmatrix \<Rightarrow> error + dmatrix" where
  "dot_example a b =
     (if a = [] \<and> b = [] then Inr []
      else if b = identity2 \<and> map length a = [2, 2] then Inr a
      else if a = identity2 \<and> map length b = [2, 2] then Inr b
      else Inl ValueError)"

definition eigh_example :: "dmatrix \<Rightarrow> dmatrix \<Rightarrow> error + double list \<times> dmatrix" where
  "eigh_example A B =
     (if A = [] \<and> B = [] then Inr ([], [])
      else if B = identity2 \<and> map length A = [2, 2] \<and> A ! 0 ! 1 = Fin 0 \<and> A ! 1 ! 0 = Fin 0 then
        (if flt (A ! 1 ! 1) (A ! 0 ! 0)
         then Inr ([A ! 1 ! 1, A ! 0 ! 0], [[Fin 0, Fin 1], [Fin 1, Fin 0]])
         else Inr ([A ! 0 ! 0, A ! 1 ! 1], identity2))
      else Inl LinAlgError)"

text \<open>
  The rounding of the sums of the examples. The sum \<open>1 + 3 / 2 ^ 53\<close> lies halfway between
  the doubles \<open>1 + 1 / 2 ^ 52\<close> and \<open>1 + 1 / 2 ^ 51\<close> and goes to the one with the even
  significand, \<open>1 + 1 / 2 ^ 51\<close>; the other sums of the examples are doubles themselves.
\<close>

definition rnd_example :: "real \<Rightarrow> double" where
  "rnd_example x = (if x = 1 + 3 / 2 ^ 53 then Fin (1 + 1 / 2 ^ 51) else Fin x)"

section \<open>The data container\<close>

text \<open>
  Modelled from the spec: the class \<^verbatim>\<open>IOData\<close> of \<^verbatim>\<open>iodata/iodata.py\<close> is not among the
  sources; only its tests are. The specification describes the container as a set of
  optional named attributes, an absent one being "not present", and the two derived
  accessors as follows. \<^verbatim>\<open>get_dm_full\<close> returns the stored full density matrix when there
  is one; otherwise, when orbitals are available, it reconstructs
  \<open>DM[p,q] = \<Sum>\<^sub>i occ\<^sub>i * C[p,i] * C[q,i]\<close>, summed over the alpha and beta channels, or doubled
  when only the alpha channel is present; otherwise it returns "no data". \<^verbatim>\<open>get_dm_spin\<close>
  returns the stored spin density matrix, or the alpha contribution minus the beta one, and
  is absent with insufficient data. Only the attributes these accessors read are modelled.
\<close>

record orbitals =
  orb_coeffs :: matrix
  orb_occs :: "real list"

record IOData =
  dm_full_scf :: "matrix option"
  dm_spin_scf :: "matrix option"
  orb_alpha :: "orbitals option"
  orb_beta :: "orbitals option"

text \<open>Modelled from the spec: the container constructed with no attributes.\<close>

definition IOData_empty :: IOData where
  "IOData_empty =
     \<lparr>dm_full_scf = None, dm_spin_scf = None, orb_alpha = None, orb_beta = None\<rparr>"

text \<open>
  Modelled from the spec: the weighted sum of outer products over the orbitals; a
  coefficient matrix whose rows do not have one entry for each occupation is an error.
\<close>

definition dm_from_orbitals :: "orbitals \<Rightarrow> error + matrix" where
  "dm_from_orbitals orb =
     (if list_all (\<lambda>r. length r = length (orb_occs orb)) (orb_coeffs orb) then
        Inr (map (\<lambda>rp. map (\<lambda>rq.
               sum_list (map (\<lambda>(occ, cp, cq). occ * cp * cq) (zip (orb_occs orb) (zip rp rq))))
             (orb_coeffs orb)) (orb_coeffs orb))
      else Inl ValueError)"

definition combine :: "(real \<Rightarrow> real \<Rightarrow> real) \<Rightarrow> matrix \<Rightarrow> matrix \<Rightarrow> matrix" where
  "combine f a b = map2 (map2 f) a b"

text \<open>Modelled from the spec: the two derived accessors.\<close>

definition get_dm_full :: "IOData \<Rightarrow> error + matrix option" where
  "get_dm_full self =
     (case dm_full_scf self of
        Some dm \<Rightarrow> Inr (Some dm)
      | None \<Rightarrow>
          (case orb_alpha self of
             None \<Rightarrow> Inr None
           | Some oa \<Rightarrow>
               and_then (dm_from_orbitals oa) (\<lambda>dma.
                 case orb_beta self of
                   None \<Rightarrow> Inr (Some (combine (+) dma dma))
                 | Some ob \<Rightarrow>
                     and_then (dm_from_orbitals ob) (\<lambda>dmb. Inr (Some (combine (+) dma dmb))))))"

definition get_dm_spin :: "IOData \<Rightarrow> error + matrix option" where
  "get_dm_spin self =
     (case dm_spin_scf self of
        Some dm \<Rightarrow> Inr (Some dm)
      | None \<Rightarrow>
          (case (orb_alpha self, orb_beta self) of
             (Some oa, Some ob) \<Rightarrow>
               and_then (dm_from_orbitals oa) (\<lambda>dma.
               and_then (dm_from_orbitals ob) (\<lambda>dmb. Inr (Some (combine (-) dma dmb))))
           | _ \<Rightarrow> Inr None))"

section \<open>Properties of the line cursor\<close>

text \<open>
  C5: pushing a line back and then asking for the next line returns that line and restores
  the whole cursor: counter, stack and file handle. This holds in every state of the
  cursor, the open ones included.
\<close>

theorem back_then_next_identity:
  "LineIterator_next (LineIterator_back self l) = (Inr l, self)"
  by (simp add: LineIterator_next_def LineIterator_back_def Let_def)

text \<open>
  C7 (as stated): the counter starts at 0 and no operation of the cursor ever decreases it.
  This fails: \<^verbatim>\<open>back\<close> decrements the counter, as its docstring says, so on a fresh
  cursor one call of \<^verbatim>\<open>back\<close> takes the counter from 0 to -1.
\<close>

theorem lineno_back_decreases_counterexample:
  "lineno (run_op Map.empty (Back ''x'') (LineIterator_init ''f'')) = -1 \<and>
   lineno (run_op Map.empty (Back ''x'') (LineIterator_init ''f'')) <
     lineno (LineIterator_init ''f'')"
  by (simp add: LineIterator_back_def LineIterator_init_def)

text \<open>
  C7 (amended): the counter starts at 0; every operation other than \<^verbatim>\<open>back\<close> leaves it
  unchanged or increases it (\<^verbatim>\<open>next\<close> adds exactly one, also when the read fails), and
  \<^verbatim>\<open>back\<close> subtracts exactly one.
\<close>

theorem lineno_only_back_decreases:
  "lineno (LineIterator_init fname) = 0 \<and>
   ((\<forall>l. op \<noteq> Back l) \<longrightarrow> lineno self \<le> lineno (run_op fs op self)) \<and>
   lineno (run_op fs Next self) = lineno self + 1 \<and>
   lineno (run_op fs (Back l) self) = lineno self - 1"
proof -
  have init: "lineno (LineIterator_init fname) = 0"
    by (simp add: LineIterator_init_def)
  have nxt: "lineno (run_op fs Next self) = lineno self + 1"
    by (simp add: LineIterator_next_def Let_def split: handle.split list.split)
  have bck: "lineno (run_op fs (Back l) self) = lineno self - 1"
    by (simp add: LineIterator_back_def)
  have mono: "lineno self \<le> lineno (run_op fs op self)" if "\<forall>l. op \<noteq> Back l"
  proof (cases op)
    case Enter
    then show ?thesis by (simp add: LineIterator_enter_def split: option.split)
  next
    case Exit
    then show ?thesis by (simp add: LineIterator_exit_def split: handle.split)
  next
    case Next
    then show ?thesis using nxt by simp
  next
    case (Error msg)
    then show ?thesis by (simp add: LineIterator_error_def)
  next
    case (Warn msg)
    then show ?thesis by (simp add: LineIterator_warn_def)
  next
    case (Back l')
    then show ?thesis using that by simp
  qed
  from init nxt bck mono show ?thesis by blast
qed

theorem lineno_only_back_decreases_witness:
  "lineno (LineIterator_init ''f'') = 0 \<and>
   lineno (LineIterator_init ''f'') \<le> lineno (run_op Map.empty Next (LineIterator_init ''f'')) \<and>
   lineno (run_op Map.empty Next (LineIterator_init ''f'')) = 1 \<and>
   lineno (run_op Map.empty (Back ''x'') (LineIterator_init ''f'')) = - 1"
  using lineno_only_back_decreases [of "''f''" Next "LineIterator_init ''f''" Map.empty "''x''"]
  by (simp add: LineIterator_init_def)

section \<open>Properties of strtobool\<close>

text \<open>
  C4: \<^verbatim>\<open>strtobool\<close> looks the lowercased string up in the table: it returns true exactly
  when the lowercased string is one of y, yes, t, true, on, 1; it returns false exactly
  when it is one of n, no, f, false, off, 0; and it raises \<^verbatim>\<open>ValueError\<close> (the
  specification's invalid-argument error) exactly for every other string.
\<close>

theorem strtobool_table:
  "(strtobool s = Inr True \<longleftrightarrow>
      lower s \<in> {''y'', ''yes'', ''t'', ''true'', ''on'', ''1''}) \<and>
   (strtobool s = Inr False \<longleftrightarrow>
      lower s \<in> {''n'', ''no'', ''f'', ''false'', ''off'', ''0''}) \<and>
   (strtobool s = Inl ValueError \<longleftrightarrow>
      lower s \<notin> {''y'', ''yes'', ''t'', ''true'', ''on'', ''1'',
                  ''n'', ''no'', ''f'', ''false'', ''off'', ''0''})"
  by (simp add: strtobool_def STRTOBOOL_def)

text \<open>The examples of the specification: the lookup ignores case.\<close>

lemma strtobool_examples:
  "strtobool ''YES'' = Inr True" "strtobool ''yes'' = Inr True" "strtobool ''Y'' = Inr True"
  "strtobool ''0'' = Inr False" "strtobool ''off'' = Inr False"
  "strtobool ''maybe'' = Inl ValueError"
  by code_simp+

section \<open>Properties of Cube\<close>

lemma length_eq_3: "length xs = 3 \<longleftrightarrow> (\<exists>a b c. xs = [a, b, c])"
  by (auto simp: numeral_3_eq_3 length_Suc_conv)

text \<open>
  C8: constructing a Cube succeeds exactly when the origin has shape (3,), the axes have
  shape (3, 3) and the data have rank 3; every other argument is rejected with
  \<^verbatim>\<open>TypeError\<close>, and the record that is built holds the three arguments, so its fields
  have these shapes. The elements are real numbers by the type of the arrays.
\<close>

theorem Cube_init_shapes:
  "Cube_init o' a d =
     (if shape o' = [3] \<and> shape a = [3, 3] \<and> length (shape d) = 3
      then Inr \<lparr>origin = o', axes = a, data = d\<rparr>
      else Inl TypeError)"
  by (auto simp add: Cube_init_def validate_shape_def list_all2_Cons1 length_eq_3
      split: sum.splits if_splits)

section \<open>Properties of volume\<close>

text \<open>
  The row count decides the branch whatever the arithmetic: with no row or more than three
  rows \<^verbatim>\<open>volume\<close> raises \<^verbatim>\<open>ValueError\<close>.
\<close>

lemma volume_row_count_error:
  "length rows = 0 \<or> 3 < length rows \<Longrightarrow> volume (Rank2 rows) = Inl ValueError"
  by (auto simp: volume_def)

text \<open>
  C10: on the left-handed basis with rows (1,0,0), (0,0,1), (0,1,0), \<^verbatim>\<open>volume\<close> returns
  -1: the determinant is returned with its sign, so the result can be negative.
\<close>

theorem volume_left_handed_negative:
  "volume (Rank2 [[1, 0, 0], [0, 0, 1], [0, 1, 0]]) = Inr (- 1) \<and>
   (\<exists>r. volume (Rank2 [[1, 0, 0], [0, 0, 1], [0, 1, 0]]) = Inr r \<and> r < 0)"
  by (simp add: volume_def linalg_det_def det2_def)

section \<open>Properties of set_four_index_element\<close>

lemma digit_unique:
  fixes n :: nat
  assumes "x * n + d = y * n + e" "d < n" "e < n"
  shows "x = y \<and> d = e"
proof -
  have "(x * n + d) div n = x" "(x * n + d) mod n = d" using assms(2) by simp_all
  moreover have "(y * n + e) div n = y" "(y * n + e) mod n = e" using assms(3) by simp_all
  ultimately show ?thesis using assms(1) by metis
qed

lemma digit_bound:
  fixes n :: nat
  assumes "x < m" "d < n"
  shows "x * n + d < m * n"
proof -
  have "x * n + d < x * n + n" using assms(2) by simp
  also have "\<dots> = Suc x * n" by simp
  also have "\<dots> \<le> m * n" using assms(1) by (intro mult_le_mono1) simp
  finally show ?thesis .
qed

lemma flat_index_inj:
  assumes "flat_index n j0 j1 j2 j3 = flat_index n k0 k1 k2 k3"
    and "j1 < n" "j2 < n" "j3 < n" "k1 < n" "k2 < n" "k3 < n"
  shows "j0 = k0 \<and> j1 = k1 \<and> j2 = k2 \<and> j3 = k3"
proof -
  from assms(1) have a: "((j0 * n + j1) * n + j2) * n + j3 = ((k0 * n + k1) * n + k2) * n + k3"
    by (simp add: flat_index_def)
  from digit_unique [OF a \<open>j3 < n\<close> \<open>k3 < n\<close>]
  have b: "(j0 * n + j1) * n + j2 = (k0 * n + k1) * n + k2" and e3: "j3 = k3" by simp_all
  from digit_unique [OF b \<open>j2 < n\<close> \<open>k2 < n\<close>]
  have c: "j0 * n + j1 = k0 * n + k1" and e2: "j2 = k2" by simp_all
  from digit_unique [OF c \<open>j1 < n\<close> \<open>k1 < n\<close>] e2 e3 show ?thesis by simp
qed

lemma flat_index_bound:
  assumes "j0 < n" "j1 < n" "j2 < n" "j3 < n"
  shows "flat_index n j0 j1 j2 j3 < n ^ 4"
proof -
  have "j0 * n + j1 < n * n" using assms by (intro digit_bound)
  then have "(j0 * n + j1) * n + j2 < n * n * n" using assms by (intro digit_bound)
  then have "((j0 * n + j1) * n + j2) * n + j3 < n * n * n * n" using assms by (intro digit_bound)
  then show ?thesis by (simp add: flat_index_def power4_eq_xxxx)
qed

lemma locate_in_range:
  assumes "0 \<le> i0" "i0 < int (nbasis a)" "0 \<le> i1" "i1 < int (nbasis a)"
    "0 \<le> i2" "i2 < int (nbasis a)" "0 \<le> i3" "i3 < int (nbasis a)"
  shows "locate a i0 i1 i2 i3 = Inr (flat_index (nbasis a) (nat i0) (nat i1) (nat i2) (nat i3))"
  using assms by (simp add: locate_def normalize_index_def)

lemma locate_elems [simp]: "locate (a\<lparr>elems := xs\<rparr>) i0 i1 i2 i3 = locate a i0 i1 i2 i3"
  by (simp add: locate_def split: sum.split)

lemma length_write_all [simp]: "length (write_all ks v xs) = length xs"
  unfolding write_all_def by (induction ks arbitrary: xs) simp_all

lemma nth_write_all:
  "k < length xs \<Longrightarrow> write_all ks v xs ! k = (if k \<in> set ks then v else xs ! k)"
  unfolding write_all_def
proof (induction ks arbitrary: xs)
  case Nil
  then show ?case by simp
next
  case (Cons a ks)
  then show ?case by (auto simp: nth_list_update)
qed

lemma set_four_index_element_elems:
  assumes "0 \<le> i0" "i0 < int (nbasis a)" "0 \<le> i1" "i1 < int (nbasis a)"
    "0 \<le> i2" "i2 < int (nbasis a)" "0 \<le> i3" "i3 < int (nbasis a)"
  shows "set_four_index_element a i0 i1 i2 i3 v =
    Inr (a\<lparr>elems := write_all
      [flat_index (nbasis a) (nat i0) (nat i1) (nat i2) (nat i3),
       flat_index (nbasis a) (nat i1) (nat i0) (nat i3) (nat i2),
       flat_index (nbasis a) (nat i2) (nat i1) (nat i0) (nat i3),
       flat_index (nbasis a) (nat i0) (nat i3) (nat i2) (nat i1),
       flat_index (nbasis a) (nat i2) (nat i3) (nat i0) (nat i1),
       flat_index (nbasis a) (nat i3) (nat i2) (nat i1) (nat i0),
       flat_index (nbasis a) (nat i1) (nat i2) (nat i3) (nat i0),
       flat_index (nbasis a) (nat i3) (nat i0) (nat i1) (nat i2)] v (elems a)\<rparr>)"
  using assms
  by (simp add: set_four_index_element_def and_then_def setitem_def locate_in_range write_all_def)


text \<open>
  C9: on an array of shape (n, n, n, n) and indices below n, \<^verbatim>\<open>set_four_index_element\<close>
  returns normally, each of the eight index tuples (i0,i1,i2,i3), (i1,i0,i3,i2),
  (i2,i1,i0,i3), (i0,i3,i2,i1), (i2,i3,i0,i1), (i3,i2,i1,i0), (i1,i2,i3,i0), (i3,i0,i1,i2)
  then holds the value, and the entry at every other index tuple is what it was.
\<close>

theorem set_four_index_element_frame:
  assumes wf: "length (elems a) = nbasis a ^ 4"
    and r0: "0 \<le> i0" "i0 < int (nbasis a)" and r1: "0 \<le> i1" "i1 < int (nbasis a)"
    and r2: "0 \<le> i2" "i2 < int (nbasis a)" and r3: "0 \<le> i3" "i3 < int (nbasis a)"
  shows "\<exists>a'. set_four_index_element a i0 i1 i2 i3 v = Inr a' \<and>
      nbasis a' = nbasis a \<and> length (elems a') = length (elems a) \<and>
      getitem a' i0 i1 i2 i3 = Inr v \<and> getitem a' i1 i0 i3 i2 = Inr v \<and>
      getitem a' i2 i1 i0 i3 = Inr v \<and> getitem a' i0 i3 i2 i1 = Inr v \<and>
      getitem a' i2 i3 i0 i1 = Inr v \<and> getitem a' i3 i2 i1 i0 = Inr v \<and>
      getitem a' i1 i2 i3 i0 = Inr v \<and> getitem a' i3 i0 i1 i2 = Inr v \<and>
      (\<forall>j0 j1 j2 j3.
         0 \<le> j0 \<and> j0 < int (nbasis a) \<and> 0 \<le> j1 \<and> j1 < int (nbasis a) \<and>
         0 \<le> j2 \<and> j2 < int (nbasis a) \<and> 0 \<le> j3 \<and> j3 < int (nbasis a) \<and>
         (j0, j1, j2, j3) \<notin>
           {(i0, i1, i2, i3), (i1, i0, i3, i2), (i2, i1, i0, i3), (i0, i3, i2, i1),
            (i2, i3, i0, i1), (i3, i2, i1, i0), (i1, i2, i3, i0), (i3, i0, i1, i2)} \<longrightarrow>
         getitem a' j0 j1 j2 j3 = getitem a j0 j1 j2 j3)"
proof -
  define n where "n = nbasis a"
  define ks where "ks =
      [flat_index n (nat i0) (nat i1) (nat i2) (nat i3),
       flat_index n (nat i1) (nat i0) (nat i3) (nat i2),
       flat_index n (nat i2) (nat i1) (nat i0) (nat i3),
       flat_index n (nat i0) (nat i3) (nat i2) (nat i1),
       flat_index n (nat i2) (nat i3) (nat i0) (nat i1),
       flat_index n (nat i3) (nat i2) (nat i1) (nat i0),
       flat_index n (nat i1) (nat i2) (nat i3) (nat i0),
       flat_index n (nat i3) (nat i0) (nat i1) (nat i2)]"
  define a' where "a' = a\<lparr>elems := write_all ks v (elems a)\<rparr>"
  have res: "set_four_index_element a i0 i1 i2 i3 v = Inr a'"
    unfolding a'_def ks_def n_def
    using r0 r1 r2 r3 by (rule set_four_index_element_elems)
  have nb: "nbasis a' = nbasis a" and len: "length (elems a') = length (elems a)"
    by (simp_all add: a'_def)
  have get: "getitem a' j0 j1 j2 j3 =
      Inr (if flat_index n (nat j0) (nat j1) (nat j2) (nat j3) \<in> set ks then v
           else elems a ! flat_index n (nat j0) (nat j1) (nat j2) (nat j3))"
    if "0 \<le> j0" "j0 < int n" "0 \<le> j1" "j1 < int n" "0 \<le> j2" "j2 < int n" "0 \<le> j3" "j3 < int n"
    for j0 j1 j2 j3
  proof -
    have "nat j0 < n" "nat j1 < n" "nat j2 < n" "nat j3 < n"
      using that by linarith+
    then have "flat_index n (nat j0) (nat j1) (nat j2) (nat j3) < n ^ 4"
      by (rule flat_index_bound)
    then have "flat_index n (nat j0) (nat j1) (nat j2) (nat j3) < length (elems a)"
      using wf by (simp add: n_def)
    moreover have "locate a' j0 j1 j2 j3 = Inr (flat_index n (nat j0) (nat j1) (nat j2) (nat j3))"
      using that locate_in_range [of j0 a j1 j2 j3] by (simp add: a'_def n_def)
    ultimately show ?thesis
      by (simp add: getitem_def a'_def nth_write_all)
  qed
  have old: "getitem a j0 j1 j2 j3 = Inr (elems a ! flat_index n (nat j0) (nat j1) (nat j2) (nat j3))"
    if "0 \<le> j0" "j0 < int n" "0 \<le> j1" "j1 < int n" "0 \<le> j2" "j2 < int n" "0 \<le> j3" "j3 < int n"
    for j0 j1 j2 j3
    using that locate_in_range [of j0 a j1 j2 j3] by (simp add: getitem_def n_def)
  have rs: "0 \<le> i0" "i0 < int n" "0 \<le> i1" "i1 < int n" "0 \<le> i2" "i2 < int n" "0 \<le> i3" "i3 < int n"
    using r0 r1 r2 r3 by (simp_all add: n_def)
  have w: "getitem a' i0 i1 i2 i3 = Inr v" "getitem a' i1 i0 i3 i2 = Inr v"
      "getitem a' i2 i1 i0 i3 = Inr v" "getitem a' i0 i3 i2 i1 = Inr v"
      "getitem a' i2 i3 i0 i1 = Inr v" "getitem a' i3 i2 i1 i0 = Inr v"
      "getitem a' i1 i2 i3 i0 = Inr v" "getitem a' i3 i0 i1 i2 = Inr v"
    using rs by (simp_all add: get ks_def)
  have frame: "getitem a' j0 j1 j2 j3 = getitem a j0 j1 j2 j3"
    if cond: "0 \<le> j0 \<and> j0 < int (nbasis a) \<and> 0 \<le> j1 \<and> j1 < int (nbasis a) \<and>
         0 \<le> j2 \<and> j2 < int (nbasis a) \<and> 0 \<le> j3 \<and> j3 < int (nbasis a) \<and>
         (j0, j1, j2, j3) \<notin>
           {(i0, i1, i2, i3), (i1, i0, i3, i2), (i2, i1, i0, i3), (i0, i3, i2, i1),
            (i2, i3, i0, i1), (i3, i2, i1, i0), (i1, i2, i3, i0), (i3, i0, i1, i2)}"
    for j0 j1 j2 j3
  proof -
    from cond have j: "0 \<le> j0" "j0 < int n" "0 \<le> j1" "j1 < int n"
        "0 \<le> j2" "j2 < int n" "0 \<le> j3" "j3 < int n"
      by (simp_all add: n_def)
    have jn: "nat j1 < n" "nat j2 < n" "nat j3 < n"
      using j by linarith+
    have ne: "flat_index n (nat j0) (nat j1) (nat j2) (nat j3) \<noteq>
        flat_index n (nat k0) (nat k1) (nat k2) (nat k3)"
      if k: "0 \<le> k0" "k0 < int n" "0 \<le> k1" "k1 < int n" "0 \<le> k2" "k2 < int n" "0 \<le> k3" "k3 < int n"
        and d: "j0 \<noteq> k0 \<or> j1 \<noteq> k1 \<or> j2 \<noteq> k2 \<or> j3 \<noteq> k3" for k0 k1 k2 k3
    proof
      assume eq: "flat_index n (nat j0) (nat j1) (nat j2) (nat j3) =
        flat_index n (nat k0) (nat k1) (nat k2) (nat k3)"
      have kn: "nat k1 < n" "nat k2 < n" "nat k3 < n"
        using k by linarith+
      from flat_index_inj [OF eq jn kn]
      have "nat j0 = nat k0" "nat j1 = nat k1" "nat j2 = nat k2" "nat j3 = nat k3"
        by blast+
      then have "j0 = k0" "j1 = k1" "j2 = k2" "j3 = k3"
        using j k by linarith+
      with d show False by blast
    qed
    from cond have out:
      "j0 \<noteq> i0 \<or> j1 \<noteq> i1 \<or> j2 \<noteq> i2 \<or> j3 \<noteq> i3" "j0 \<noteq> i1 \<or> j1 \<noteq> i0 \<or> j2 \<noteq> i3 \<or> j3 \<noteq> i2"
      "j0 \<noteq> i2 \<or> j1 \<noteq> i1 \<or> j2 \<noteq> i0 \<or> j3 \<noteq> i3" "j0 \<noteq> i0 \<or> j1 \<noteq> i3 \<or> j2 \<noteq> i2 \<or> j3 \<noteq> i1"
      "j0 \<noteq> i2 \<or> j1 \<noteq> i3 \<or> j2 \<noteq> i0 \<or> j3 \<noteq> i1" "j0 \<noteq> i3 \<or> j1 \<noteq> i2 \<or> j2 \<noteq> i1 \<or> j3 \<noteq> i0"
      "j0 \<noteq> i1 \<or> j1 \<noteq> i2 \<or> j2 \<noteq> i3 \<or> j3 \<noteq> i0" "j0 \<noteq> i3 \<or> j1 \<noteq> i0 \<or> j2 \<noteq> i1 \<or> j3 \<noteq> i2"
      by simp_all
    note d = ne [OF rs(1-8) out(1)] ne [OF rs(3,4,1,2,7,8,5,6) out(2)]
      ne [OF rs(5,6,3,4,1,2,7,8) out(3)] ne [OF rs(1,2,7,8,5,6,3,4) out(4)]
      ne [OF rs(5,6,7,8,1,2,3,4) out(5)] ne [OF rs(7,8,5,6,3,4,1,2) out(6)]
      ne [OF rs(3,4,5,6,7,8,1,2) out(7)] ne [OF rs(7,8,1,2,3,4,5,6) out(8)]
    have "flat_index n (nat j0) (nat j1) (nat j2) (nat j3) \<notin> set ks"
      unfolding ks_def using d by simp
    then show ?thesis
      using j by (simp add: get old)
  qed
  show ?thesis
    by (intro exI [of _ a'] conjI allI impI; (fact res nb len w | (rule frame, assumption)))
qed

theorem set_four_index_element_frame_witness:
  "length (elems \<lparr>nbasis = 2, elems = replicate 16 0\<rparr>) = nbasis \<lparr>nbasis = 2, elems = replicate 16 0\<rparr> ^ 4 \<and>
   (\<exists>a'. set_four_index_element \<lparr>nbasis = 2, elems = replicate 16 0\<rparr> 0 1 0 1 7 = Inr a' \<and>
      getitem a' 0 1 0 1 = Inr 7 \<and> getitem a' 1 0 1 0 = Inr 7 \<and>
      getitem a' 0 0 0 0 = Inr 0 \<and> getitem a' 0 0 1 1 = Inr 0)"
proof -
  define a :: four_index where "a = \<lparr>nbasis = 2, elems = replicate 16 0\<rparr>"
  have wf: "length (elems a) = nbasis a ^ 4"
    by (simp add: a_def)
  have r: "(0::int) \<le> 0" "0 < int (nbasis a)" "(0::int) \<le> 1" "1 < int (nbasis a)"
    by (simp_all add: a_def)
  from set_four_index_element_frame [OF wf r(1,2) r(3,4) r(1,2) r(3,4), of 7]
  obtain a' where res: "set_four_index_element a 0 1 0 1 7 = Inr a'"
    and g: "getitem a' 0 1 0 1 = Inr 7" "getitem a' 1 0 1 0 = Inr 7"
    and fr: "\<forall>j0 j1 j2 j3.
         0 \<le> j0 \<and> j0 < int (nbasis a) \<and> 0 \<le> j1 \<and> j1 < int (nbasis a) \<and>
         0 \<le> j2 \<and> j2 < int (nbasis a) \<and> 0 \<le> j3 \<and> j3 < int (nbasis a) \<and>
         (j0, j1, j2, j3) \<notin>
           {(0, 1, 0, 1), (1, 0, 1, 0), (0, 1, 0, 1), (0, 1, 0, 1),
            (0, 1, 0, 1), (1, 0, 1, 0), (1, 0, 1, 0), (1, 0, 1, 0)} \<longrightarrow>
         getitem a' j0 j1 j2 j3 = getitem a j0 j1 j2 j3"
    by (elim exE conjE)
  have "getitem a' 0 0 0 0 = getitem a 0 0 0 0"
    by (rule fr [rule_format]) (simp add: a_def)
  moreover have "getitem a' 0 0 1 1 = getitem a 0 0 1 1"
    by (rule fr [rule_format]) (simp add: a_def)
  moreover have "getitem a 0 0 0 0 = Inr 0" "getitem a 0 0 1 1 = Inr 0"
    by (simp_all add: a_def getitem_def locate_def normalize_index_def flat_index_def)
  ultimately show ?thesis
    using wf res g unfolding a_def by (intro conjI exI [of _ a']) simp_all
qed

section \<open>Properties of the density-matrix check\<close>

text \<open>On finite occupations the two reductions are the least and the greatest number.\<close>

lemma fold_fmin_finite: "fold fmin (map Fin rs) (Fin r) = Fin (Min (insert r (set rs)))"
proof (induction rs arbitrary: r)
  case Nil
  then show ?case by simp
next
  case (Cons a rs)
  have "fmin (Fin a) (Fin r) = Fin (min r a)"
    by (simp add: fmin_def min_def)
  moreover have "Min (insert (min r a) (set rs)) = Min (insert r (insert a (set rs)))"
    by (cases "set rs = {}") (simp_all add: min.assoc)
  ultimately show ?case using Cons.IH [of "min r a"] by simp
qed

lemma fold_fmax_finite: "fold fmax (map Fin rs) (Fin r) = Fin (Max (insert r (set rs)))"
proof (induction rs arbitrary: r)
  case Nil
  then show ?case by simp
next
  case (Cons a rs)
  have "fmax (Fin a) (Fin r) = Fin (max r a)"
    by (simp add: fmax_def max_def)
  moreover have "Max (insert (max r a) (set rs)) = Max (insert r (insert a (set rs)))"
    by (cases "set rs = {}") (simp_all add: max.assoc)
  ultimately show ?case using Cons.IH [of "max r a"] by simp
qed

lemma amin_finite: "rs \<noteq> [] \<Longrightarrow> amin (map Fin rs) = Inr (Fin (Min (set rs)))"
  by (cases rs) (simp_all add: fold_fmin_finite)

lemma amax_finite: "rs \<noteq> [] \<Longrightarrow> amax (map Fin rs) = Inr (Fin (Max (set rs)))"
  by (cases rs) (simp_all add: fold_fmax_finite)

text \<open>
  On the empty pair of matrices \<^verbatim>\<open>check_dm\<close> never returns normally, whatever the
  product and the solver do there, as long as the solver invents no eigenvalue.
\<close>

lemma check_dm_empty_never_returns:
  assumes "\<And>evals evecs. eigh [] [] = Inr (evals, evecs) \<Longrightarrow> evals = []"
    and "\<And>m. np_dot [] [] = Inr m \<Longrightarrow> m = []"
  shows "check_dm rnd np_dot eigh [] [] eps occ_max \<noteq> Inr ()"
proof (cases "np_dot [] []")
  case (Inl e)
  then show ?thesis
    by (simp add: check_dm_def derive_naturals_def and_then_def)
next
  case (Inr m)
  with assms(2) have m: "np_dot [] [] = Inr []" by simp
  show ?thesis
  proof (cases "eigh [] []")
    case (Inl e)
    with m show ?thesis
      by (simp add: check_dm_def derive_naturals_def and_then_def T_def ncols_def)
  next
    case (Inr r)
    obtain evals evecs where r: "r = (evals, evecs)" by (cases r)
    with Inr assms(1) have "evals = []" by simp
    with m Inr r show ?thesis
      by (simp add: check_dm_def derive_naturals_def and_then_def T_def ncols_def)
  qed
qed

text \<open>
  C1 (as stated): for every pair of square matrices of equal dimension, \<^verbatim>\<open>check_dm\<close>
  raises exactly when the smallest occupation is below \<open>-eps\<close> or the largest one exceeds
  \<open>occ_max + eps\<close>, and returns normally otherwise. This fails on the pair of 0 by 0
  matrices: there is no occupation, so none is out of range, and yet the call raises
  \<^verbatim>\<open>ValueError\<close>, from the minimum of an empty array.
\<close>

theorem check_dm_empty_raises_counterexample:
  "derive_naturals dot_example eigh_example [] [] = Inr ([], []) \<and>
   check_dm rnd_example dot_example eigh_example [] [] (Fin (1 / 8192)) (Fin 1) = Inl ValueError"
  by (simp add: check_dm_def derive_naturals_def and_then_def dot_example_def eigh_example_def
      T_def ncols_def)

text \<open>
  C1 (amended): whenever \<^verbatim>\<open>derive_naturals\<close> yields at least one occupation, that is for
  matrices of dimension one or more on which the solver succeeds, \<^verbatim>\<open>check_dm\<close> raises
  \<^verbatim>\<open>ValueError\<close> (the specification's value-range error) exactly when the minimum of the
  occupations is less than \<open>-eps\<close> or their maximum is greater than \<open>occ_max + eps\<close>, the
  sum and the comparisons being those of the doubles; otherwise it returns normally, with
  no value. The function is pure: there is no other effect.
\<close>

theorem check_dm_raises_iff_out_of_range:
  assumes "derive_naturals np_dot eigh dm overlap = Inr (coeffs, occs)" and "occs \<noteq> []"
  shows "\<exists>lowest highest. amin occs = Inr lowest \<and> amax occs = Inr highest \<and>
     check_dm rnd np_dot eigh dm overlap eps occ_max =
       (if flt lowest (fneg eps) \<or> flt (fadd rnd occ_max eps) highest
        then Inl ValueError else Inr ())"
proof -
  from assms(2) obtain x xs where occs: "occs = x # xs"
    by (cases occs) simp_all
  show ?thesis
    using assms(1) by (simp add: occs check_dm_def and_then_def)
qed

lemma derive_naturals_example:
  "derive_naturals dot_example eigh_example [[a, Fin 0], [Fin 0, b]] identity2 =
     (if flt b a then Inr ([[Fin 0, Fin 1], [Fin 1, Fin 0]], [b, a])
      else Inr (identity2, [a, b]))"
proof -
  have t: "T identity2 = identity2"
    by (simp add: T_def ncols_def column_def identity2_def upt_rec [of 0] upt_rec [of 1])
  have d1: "dot_example [[a, Fin 0], [Fin 0, b]] identity2 = Inr [[a, Fin 0], [Fin 0, b]]"
    by (simp add: dot_example_def)
  have d2: "dot_example identity2 [[a, Fin 0], [Fin 0, b]] = Inr [[a, Fin 0], [Fin 0, b]]"
    by (simp add: dot_example_def identity2_def)
  have e: "eigh_example [[a, Fin 0], [Fin 0, b]] identity2 =
     (if flt b a then Inr ([b, a], [[Fin 0, Fin 1], [Fin 1, Fin 0]]) else Inr ([a, b], identity2))"
    by (simp add: eigh_example_def)
  have n: "ncols identity2 = 2"
    by (simp add: ncols_def identity2_def)
  show ?thesis
    by (simp add: derive_naturals_def and_then_def t d1 d2 e n) (simp add: identity2_def)
qed

theorem check_dm_raises_iff_out_of_range_witness:
  "derive_naturals dot_example eigh_example [[Fin (1 / 2), Fin 0], [Fin 0, Fin (1 / 4)]] identity2
     = Inr ([[Fin 0, Fin 1], [Fin 1, Fin 0]], [Fin (1 / 4), Fin (1 / 2)]) \<and>
   check_dm rnd_example dot_example eigh_example
     [[Fin (1 / 2), Fin 0], [Fin 0, Fin (1 / 4)]] identity2 (Fin (1 / 8192)) (Fin 1) = Inr () \<and>
   derive_naturals dot_example eigh_example [[Fin (1 / 2), Fin 0], [Fin 0, Fin (- 1)]] identity2
     = Inr ([[Fin 0, Fin 1], [Fin 1, Fin 0]], [Fin (- 1), Fin (1 / 2)]) \<and>
   check_dm rnd_example dot_example eigh_example
     [[Fin (1 / 2), Fin 0], [Fin 0, Fin (- 1)]] identity2 (Fin (1 / 8192)) (Fin 1)
     = Inl ValueError \<and>
   derive_naturals dot_example eigh_example [[Fin (1 / 2), Fin 0], [Fin 0, Fin 2]] identity2
     = Inr (identity2, [Fin (1 / 2), Fin 2]) \<and>
   check_dm rnd_example dot_example eigh_example
     [[Fin (1 / 2), Fin 0], [Fin 0, Fin 2]] identity2 (Fin (1 / 8192)) (Fin 1)
     = Inl ValueError \<and>
   derive_naturals dot_example eigh_example
     [[Fin 0, Fin 0], [Fin 0, Fin (1 + 1 / 2 ^ 51)]] identity2
     = Inr (identity2, [Fin 0, Fin (1 + 1 / 2 ^ 51)]) \<and>
   check_dm rnd_example dot_example eigh_example
     [[Fin 0, Fin 0], [Fin 0, Fin (1 + 1 / 2 ^ 51)]] identity2 (Fin (3 / 2 ^ 53)) (Fin 1)
     = Inr ()"
proof -
  have d1: "derive_naturals dot_example eigh_example
      [[Fin (1 / 2), Fin 0], [Fin 0, Fin (1 / 4)]] identity2
     = Inr ([[Fin 0, Fin 1], [Fin 1, Fin 0]], [Fin (1 / 4), Fin (1 / 2)])"
    by (simp add: derive_naturals_example)
  have d2: "derive_naturals dot_example eigh_example
      [[Fin (1 / 2), Fin 0], [Fin 0, Fin (- 1)]] identity2
     = Inr ([[Fin 0, Fin 1], [Fin 1, Fin 0]], [Fin (- 1), Fin (1 / 2)])"
    by (simp add: derive_naturals_example)
  have d3: "derive_naturals dot_example eigh_example
      [[Fin (1 / 2), Fin 0], [Fin 0, Fin 2]] identity2
     = Inr (identity2, [Fin (1 / 2), Fin 2])"
    by (simp add: derive_naturals_example)
  have d4: "derive_naturals dot_example eigh_example
      [[Fin 0, Fin 0], [Fin 0, Fin (1 + 1 / 2 ^ 51)]] identity2
     = Inr (identity2, [Fin 0, Fin (1 + 1 / 2 ^ 51)])"
    by (simp add: derive_naturals_example)
  have c1: "check_dm rnd_example dot_example eigh_example
     [[Fin (1 / 2), Fin 0], [Fin 0, Fin (1 / 4)]] identity2 (Fin (1 / 8192)) (Fin 1) = Inr ()"
    using check_dm_raises_iff_out_of_range [OF d1, of rnd_example "Fin (1 / 8192)" "Fin 1"]
    by (simp add: fmin_def fmax_def rnd_example_def)
  have c2: "check_dm rnd_example dot_example eigh_example
     [[Fin (1 / 2), Fin 0], [Fin 0, Fin (- 1)]] identity2 (Fin (1 / 8192)) (Fin 1)
     = Inl ValueError"
    using check_dm_raises_iff_out_of_range [OF d2, of rnd_example "Fin (1 / 8192)" "Fin 1"]
    by (simp add: fmin_def fmax_def rnd_example_def)
  have c3: "check_dm rnd_example dot_example eigh_example
     [[Fin (1 / 2), Fin 0], [Fin 0, Fin 2]] identity2 (Fin (1 / 8192)) (Fin 1)
     = Inl ValueError"
    using check_dm_raises_iff_out_of_range [OF d3, of rnd_example "Fin (1 / 8192)" "Fin 1"]
    by (simp add: fmin_def fmax_def rnd_example_def)
  have c4: "check_dm rnd_example dot_example eigh_example
     [[Fin 0, Fin 0], [Fin 0, Fin (1 + 1 / 2 ^ 51)]] identity2 (Fin (3 / 2 ^ 53)) (Fin 1)
     = Inr ()"
    using check_dm_raises_iff_out_of_range [OF d4, of rnd_example "Fin (3 / 2 ^ 53)" "Fin 1"]
    by (simp add: fmin_def fmax_def rnd_example_def)
  from d1 c1 d2 c2 d3 c3 d4 c4 show ?thesis
    by (intro conjI)
qed

section \<open>Properties of the data container\<close>

text \<open>
  C6: on the container constructed with no attributes, \<^verbatim>\<open>get_dm_full\<close> and
  \<^verbatim>\<open>get_dm_spin\<close> both return the absent value \<^verbatim>\<open>None\<close> and raise nothing.
\<close>

theorem dms_empty:
  "get_dm_full IOData_empty = Inr None \<and> get_dm_spin IOData_empty = Inr None"
  by (simp add: get_dm_full_def get_dm_spin_def IOData_empty_def)

end
